theory Spec2Isabelle
  imports Complex_Main
begin

section \<open>Car replacement decision support: the computations of IDSSstreamlit.py\<close>

text \<open>
  The script computes, for the car that is kept (the defender) and the car that would
  replace it (the challenger), a five-year cash flow, its present value, a cost score
  and a weighted score, and recommends the option with the larger weighted score.

  Numbers. The script computes with doubles of two kinds: Python's own numbers (the
  floats of the input widgets and of the spreadsheets, the integers of the sliders and
  the literals) and numpy's \<open>float64\<close> (the predictions of the regression, and every
  result of an operation that has one of them as an operand). The two kinds differ where
  an operation leaves the finite numbers: Python raises ZeroDivisionError on a division by
  zero and OverflowError when \<open>**\<close> overflows; numpy raises nothing and returns an
  infinity or NaN. The model keeps the kind of every number and follows both behaviours.

  A finite double is idealised as a real number: rounding is not modelled, and neither is
  the silent overflow of a sum, a product or a quotient to an infinity, nor the sign of a
  zero (every zero is \<open>+0.0\<close>, but for the one place below where \<open>**\<close> underflows to
  \<open>-0.0\<close>; a present value of the script is never \<open>-0.0\<close>, since \<open>sum\<close> starts from
  the integer 0). The integers of the script are small and are treated as doubles.
  Python numbers stay finite in this model, so a Python number is a real (\<open>Py\<close>) and a
  numpy number is a real, an infinity or NaN (\<open>Np\<close>).

  An exception is a value of \<open>py_error\<close>; a computation that can raise returns
  \<open>py_error + 'a\<close>, with \<open>Inl\<close> for the exception.
\<close>

subsection \<open>Exceptions\<close>

datatype py_exception = ValueError | KeyError | IndexError | ZeroDivisionError | OverflowError

text \<open>
  An exception comes from one of two places: a \<open>raise\<close> statement of the script
  (\<open>Raised\<close>; the script has one, in line 32), or an operation of Python itself, a
  division, a power or a subscript (\<open>Builtin\<close>).
\<close>

datatype py_error = Raised py_exception | Builtin py_exception

definition bind_err :: "py_error + 'a \<Rightarrow> ('a \<Rightarrow> py_error + 'b) \<Rightarrow> py_error + 'b" where
  "bind_err m f = (case m of Inl e \<Rightarrow> Inl e | Inr x \<Rightarrow> f x)"

text \<open>A list comprehension whose elements can raise: the first exception ends it.\<close>

fun collect_err :: "(py_error + 'a) list \<Rightarrow> py_error + 'a list" where
  "collect_err [] = Inr []"
| "collect_err (r # rs) =
     (case r of
        Inl e \<Rightarrow> Inl e
      | Inr x \<Rightarrow> (case collect_err rs of Inl e \<Rightarrow> Inl e | Inr xs \<Rightarrow> Inr (x # xs)))"

subsection \<open>Numbers\<close>

text \<open>The values of a double: a finite one, the two infinities and NaN.\<close>

datatype fval = Fin real | PInf | NInf | NaN

text \<open>A number of the script: a Python number or a numpy \<open>float64\<close>.\<close>

datatype number = Py real | Np fval

fun num_value :: "number \<Rightarrow> fval" where
  "num_value (Py a) = Fin a"
| "num_value (Np v) = v"

fun is_numpy :: "number \<Rightarrow> bool" where
  "is_numpy (Py a) = False"
| "is_numpy (Np v) = True"

text \<open>The arithmetic of doubles on infinities and NaN (IEEE 754).\<close>

fun fneg :: "fval \<Rightarrow> fval" where
  "fneg (Fin a) = Fin (- a)"
| "fneg PInf = NInf"
| "fneg NInf = PInf"
| "fneg NaN = NaN"

fun fadd :: "fval \<Rightarrow> fval \<Rightarrow> fval" where
  "fadd (Fin a) (Fin b) = Fin (a + b)"
| "fadd NaN v = NaN"
| "fadd v NaN = NaN"
| "fadd PInf NInf = NaN"
| "fadd NInf PInf = NaN"
| "fadd PInf v = PInf"
| "fadd v PInf = PInf"
| "fadd NInf v = NInf"
| "fadd v NInf = NInf"

fun fmul :: "fval \<Rightarrow> fval \<Rightarrow> fval" where
  "fmul (Fin a) (Fin b) = Fin (a * b)"
| "fmul NaN v = NaN"
| "fmul v NaN = NaN"
| "fmul (Fin a) PInf = (if 0 < a then PInf else if a < 0 then NInf else NaN)"
| "fmul (Fin a) NInf = (if 0 < a then NInf else if a < 0 then PInf else NaN)"
| "fmul PInf (Fin b) = (if 0 < b then PInf else if b < 0 then NInf else NaN)"
| "fmul NInf (Fin b) = (if 0 < b then NInf else if b < 0 then PInf else NaN)"
| "fmul PInf PInf = PInf"
| "fmul PInf NInf = NInf"
| "fmul NInf PInf = NInf"
| "fmul NInf NInf = PInf"

text \<open>
  Division as numpy does it: a finite number divided by zero is an infinity with the
  sign of the numerator, and NaN when the numerator is zero too.
\<close>

fun fdiv :: "fval \<Rightarrow> fval \<Rightarrow> fval" where
  "fdiv (Fin a) (Fin b) =
     (if b = 0 then (if 0 < a then PInf else if a < 0 then NInf else NaN) else Fin (a / b))"
| "fdiv NaN v = NaN"
| "fdiv v NaN = NaN"
| "fdiv (Fin a) PInf = Fin 0"
| "fdiv (Fin a) NInf = Fin 0"
| "fdiv PInf (Fin b) = (if b < 0 then NInf else PInf)"
| "fdiv NInf (Fin b) = (if b < 0 then PInf else NInf)"
| "fdiv PInf PInf = NaN"
| "fdiv PInf NInf = NaN"
| "fdiv NInf PInf = NaN"
| "fdiv NInf NInf = NaN"

text \<open>\<open>a > b\<close> on doubles: false whenever one of them is NaN.\<close>

fun fgt :: "fval \<Rightarrow> fval \<Rightarrow> bool" where
  "fgt (Fin a) (Fin b) = (b < a)"
| "fgt NaN v = False"
| "fgt v NaN = False"
| "fgt PInf PInf = False"
| "fgt PInf v = True"
| "fgt NInf v = False"
| "fgt (Fin a) PInf = False"
| "fgt (Fin a) NInf = True"

text \<open>
  The operators of the script on numbers of both kinds. Two Python numbers give a Python
  number; as soon as one operand is a numpy number, numpy computes and the result is a
  numpy number.
\<close>

fun nneg :: "number \<Rightarrow> number" where
  "nneg (Py a) = Py (- a)"
| "nneg (Np v) = Np (fneg v)"

fun nadd :: "number \<Rightarrow> number \<Rightarrow> number" where
  "nadd (Py a) (Py b) = Py (a + b)"
| "nadd x y = Np (fadd (num_value x) (num_value y))"

fun nmul :: "number \<Rightarrow> number \<Rightarrow> number" where
  "nmul (Py a) (Py b) = Py (a * b)"
| "nmul x y = Np (fmul (num_value x) (num_value y))"

text \<open>
  \<open>a / b\<close>: between two Python numbers a zero divisor raises ZeroDivisionError; with a
  numpy operand nothing is raised.
\<close>

fun ndiv :: "number \<Rightarrow> number \<Rightarrow> py_error + number" where
  "ndiv (Py a) (Py b) = (if b = 0 then Inl (Builtin ZeroDivisionError) else Inr (Py (a / b)))"
| "ndiv x y = Inr (Np (fdiv (num_value x) (num_value y)))"

definition ngt :: "number \<Rightarrow> number \<Rightarrow> bool" where
  "ngt x y = fgt (num_value x) (num_value y)"

text \<open>Python's \<open>max(a, b)\<close> returns \<open>a\<close> unless \<open>b\<close> is strictly greater.\<close>

definition py_max :: "number \<Rightarrow> number \<Rightarrow> number" where
  "py_max a b = (if ngt b a then b else a)"

text \<open>
  \<open>b ** n\<close> for a Python float \<open>b\<close> and a count \<open>n\<close>. Python raises OverflowError when
  the power is too large for a double, which is from \<open>2 ^ 1024 - 2 ^ 970\<close> on (the
  power rounds to an infinity), and returns a zero when it is too small, which is up to
  \<open>2 ^ - 1075\<close>: \<open>-0.0\<close> for a negative power, \<open>+0.0\<close> otherwise. The power of the model
  is the exact one; the rounded power of the script can differ from it in the last bit.
\<close>

datatype factor = Factor real | Neg_zero

definition py_pow :: "real \<Rightarrow> nat \<Rightarrow> py_error + factor" where
  "py_pow b n =
     (let p = b ^ n
      in if 2 ^ 1024 - 2 ^ 970 \<le> \<bar>p\<bar> then Inl (Builtin OverflowError)
         else if \<bar>p\<bar> \<le> 1 / 2 ^ 1075 then Inr (if p < 0 then Neg_zero else Factor 0)
         else Inr (Factor p))"

text \<open>
  A power that is a normal double at least a factor of two inside the range of the
  doubles, so that rounding cannot take it to zero or to an infinity.
\<close>

definition safe_double :: "real \<Rightarrow> bool" where
  "safe_double p = (1 / 2 ^ 1021 \<le> \<bar>p\<bar> \<and> \<bar>p\<bar> \<le> 2 ^ 1023)"

text \<open>
  A number divided by such a power. A Python number divided by either zero raises; a
  numpy number divided by \<open>-0.0\<close> is the negated quotient by \<open>+0.0\<close>.
\<close>

fun div_factor :: "number \<Rightarrow> factor \<Rightarrow> py_error + number" where
  "div_factor x (Factor p) = ndiv x (Py p)"
| "div_factor (Py a) Neg_zero = Inl (Builtin ZeroDivisionError)"
| "div_factor (Np v) Neg_zero = Inr (Np (fneg (fdiv v (Fin 0))))"

text \<open>\<open>d[k]\<close> on a dict raises KeyError for a missing key; \<open>d.get(k, v)\<close> returns \<open>v\<close>.\<close>

definition dict_lookup :: "('k \<rightharpoonup> 'v) \<Rightarrow> 'k \<Rightarrow> py_error + 'v" where
  "dict_lookup d k = (case d k of None \<Rightarrow> Inl (Builtin KeyError) | Some v \<Rightarrow> Inr v)"

definition dict_get :: "('k \<rightharpoonup> 'v) \<Rightarrow> 'k \<Rightarrow> 'v \<Rightarrow> 'v" where
  "dict_get d k v = (case d k of None \<Rightarrow> v | Some w \<Rightarrow> w)"

text \<open>\<open>xs[i]\<close> for a non-negative literal index raises IndexError past the end.\<close>

definition list_index :: "'a list \<Rightarrow> nat \<Rightarrow> py_error + 'a" where
  "list_index xs i = (if i < length xs then Inr (xs ! i) else Inl (Builtin IndexError))"

subsection \<open>Helper functions of the script\<close>

text \<open>
  The weights are the dict the input page builds with exactly the five keys
  \<open>style\<close>, \<open>reliability\<close>, \<open>cost\<close>, \<open>fuel_economy\<close> and \<open>safety\<close>; its values are
  the integers of the sliders.
\<close>

record weights =
  w_cost :: real
  w_style :: real
  w_reliability :: real
  w_fuel_economy :: real
  w_safety :: real

definition calculate_weighted_score ::
  "number \<Rightarrow> number \<Rightarrow> number \<Rightarrow> number \<Rightarrow> number \<Rightarrow> weights \<Rightarrow> number" where
  "calculate_weighted_score cost_score style_score reliability_score fuel_economy_score
       safety_score weights =
     nadd (nadd (nadd (nadd
       (nmul (Py (w_cost weights)) cost_score)
       (nmul (Py (w_style weights)) style_score))
       (nmul (Py (w_reliability weights)) reliability_score))
       (nmul (Py (w_fuel_economy weights)) fuel_economy_score))
       (nmul (Py (w_safety weights)) safety_score)"

text \<open>
  \<open>calculate_pv\<close>: the list comprehension divides every cash flow by
  \<open>(1 + discount_rate) ** year\<close>, the years counted from 0; \<open>sum\<close> adds the quotients
  from the left, starting from the integer 0. The discount rate is a Python float, as
  the default 0.05 is.
\<close>

definition calculate_pv :: "number list \<Rightarrow> real \<Rightarrow> py_error + number" where
  "calculate_pv cash_flows discount_rate =
     bind_err
       (collect_err
          (map (\<lambda>(year, cf). bind_err (py_pow (1 + discount_rate) year) (div_factor cf))
               (enumerate 0 cash_flows)))
       (\<lambda>terms. Inr (foldl nadd (Py 0) terms))"

definition default_discount_rate :: real where
  "default_discount_rate = 5 / 100"

text \<open>
  Modelled from the spec: \<open>LinearRegression\<close> is scikit-learn's and not part of
  the repository. The spec describes what the script uses it for: it "fits an
  ordinary-least-squares line against the 3 historical (period, cost) points" and
  "evaluates that line" at the future periods. \<open>fit\<close> is the least-squares line through
  the points, \<open>predict\<close> evaluates it.
\<close>

record linear_model =
  coef :: real
  intercept :: real

definition mean :: "real list \<Rightarrow> real" where
  "mean xs = sum_list xs / real (length xs)"

definition fit :: "real list \<Rightarrow> real list \<Rightarrow> linear_model" where
  "fit xs ys =
     (let x_mean = mean xs;
          y_mean = mean ys;
          sxy = sum_list (map (\<lambda>(x, y). (x - x_mean) * (y - y_mean)) (zip xs ys));
          sxx = sum_list (map (\<lambda>x. (x - x_mean) * (x - x_mean)) xs);
          slope = sxy / sxx
      in \<lparr>coef = slope, intercept = y_mean - slope * x_mean\<rparr>)"

definition predict :: "linear_model \<Rightarrow> real list \<Rightarrow> real list" where
  "predict model xs = map (\<lambda>x. coef model * x + intercept model) xs"

text \<open>
  \<open>predict_operating_costs\<close>: the operating costs are the Python floats of the input
  page. The predictions are numpy numbers; \<open>max(0, cf)\<close> keeps a positive prediction as it
  is and returns the integer 0 for every other.
\<close>

definition predict_operating_costs :: "real list \<Rightarrow> py_error + number list" where
  "predict_operating_costs operating_costs =
     (if length operating_costs \<noteq> 3 then Inl (Raised ValueError)
      else
        let past_years = [1, 2, 3];
            model = fit past_years operating_costs;
            future_years = [4, 5, 6, 7, 8]
        in Inr (map (\<lambda>cf. py_max (Py 0) (Np (Fin cf))) (predict model future_years)))"

subsection \<open>Predefined scores\<close>

definition reliability_scores :: "string \<rightharpoonup> real" where
  "reliability_scores =
     map_of [(''Japanese'', 9 / 10), (''Korean'', 8 / 10), (''American'', 8 / 10),
             (''German'', 7 / 10)]"

definition safety_scores :: "string \<rightharpoonup> real" where
  "safety_scores =
     map_of [(''Japanese'', 7 / 10), (''Korean'', 8 / 10), (''American'', 85 / 100),
             (''German'', 9 / 10)]"

definition challenger_nationality :: "string \<rightharpoonup> string" where
  "challenger_nationality =
     map_of [(''Ford Explorer'', ''American''), (''Honda Accord'', ''Japanese''),
             (''Nissan Altima'', ''Japanese''), (''Toyota Camry'', ''Japanese''),
             (''Hyundai Sonata'', ''Korean''), (''BMW 5 Series'', ''German'')]"

definition depreciation_rates :: "string \<rightharpoonup> real" where
  "depreciation_rates =
     map_of [(''American'', 15 / 100), (''Japanese'', 11 / 100), (''German'', 18 / 100),
             (''Korean'', 13 / 100)]"

subsection \<open>The results page\<close>

text \<open>
  The three spreadsheets under \<open>data/\<close> are not part of the sources; the dicts the
  script loads from them are parameters of the model. Their values are finite Python
  numbers (pandas converts to Python numbers in \<open>to_dict\<close>).
\<close>

record dataset =
  challenger_operating_costs_data :: "string \<rightharpoonup> real list"
  fuel_economy_data :: "string \<rightharpoonup> real"
  challenger_buying_prices :: "string \<rightharpoonup> real"

text \<open>The values the input page stores in the session state, all of them Python numbers.\<close>

record inputs =
  defender_market_value :: real
  defender_operating_costs :: "real list"
  defender_fuel_economy_kmpl :: real
  style_score_defender_input :: real
  origin_defender :: string
  challenger_car :: string
  style_score_challenger_input :: real
  weights :: weights

text \<open>
  Lines 170 to 174: the depreciation rate, with its default, and the residual value. The
  rate is one of the four of the table or the default, so \<open>** 5\<close> cannot overflow.
\<close>

definition dep_rate :: "string \<Rightarrow> real" where
  "dep_rate nationality = dict_get depreciation_rates nationality (1 / 10)"

definition residual_value :: "real \<Rightarrow> real \<Rightarrow> real" where
  "residual_value price rate = price * (1 - rate) ^ 5"

text \<open>
  Lines 176 and 177: both cash flows are a first entry, the negated first four operating
  costs (the slice \<open>[:4]\<close>) and the negated fifth cost plus the residual value. The first
  entry is 0 for the defender and the market value less the buying price for the
  challenger. The costs of the defender are the predictions, the costs of the challenger
  the Python numbers of the spreadsheet.
\<close>

definition build_cash_flow :: "number \<Rightarrow> number list \<Rightarrow> number \<Rightarrow> py_error + number list" where
  "build_cash_flow first operating_costs residual =
     bind_err (list_index operating_costs 4)
       (\<lambda>last_cost. Inr ([first] @ map (\<lambda>cost. nneg cost) (take 4 operating_costs)
                             @ [nadd (nneg last_cost) residual]))"

definition cash_flow_defender :: "number list \<Rightarrow> real \<Rightarrow> py_error + number list" where
  "cash_flow_defender predicted_defender_costs residual =
     build_cash_flow (Py 0) predicted_defender_costs (Py residual)"

definition cash_flow_challenger ::
  "real \<Rightarrow> real \<Rightarrow> real list \<Rightarrow> real \<Rightarrow> py_error + number list" where
  "cash_flow_challenger market_value buying_price operating_costs residual =
     build_cash_flow (Py (market_value - buying_price)) (map Py operating_costs) (Py residual)"

text \<open>
  Lines 182 to 184: each option's cost score is the other option's share of the total.
  The two divisions are not guarded.
\<close>

definition cost_scores :: "number \<Rightarrow> number \<Rightarrow> py_error + number \<times> number" where
  "cost_scores defender_pv challenger_pv =
     (let total_pv = nadd defender_pv challenger_pv
      in bind_err (ndiv challenger_pv total_pv)
           (\<lambda>cost_score_defender.
              bind_err (ndiv defender_pv total_pv)
                (\<lambda>cost_score_challenger. Inr (cost_score_defender, cost_score_challenger))))"

text \<open>
  Lines 186 to 193: the two calls of \<open>calculate_weighted_score\<close>. Python evaluates
  the arguments from left to right: the nationality is looked up in the reliability
  table, then the fuel economy score is computed (for the challenger a lookup of the car
  in the fuel economy data, which can raise), then the nationality is looked up in the
  safety table.
\<close>

definition weighted_score_for ::
  "number \<Rightarrow> number \<Rightarrow> string \<Rightarrow> py_error + number \<Rightarrow> weights \<Rightarrow> py_error + number" where
  "weighted_score_for cost_score style_score nationality fuel_economy ws =
     bind_err (dict_lookup reliability_scores nationality)
       (\<lambda>reliability_score.
          bind_err fuel_economy
            (\<lambda>fuel_economy_score.
               bind_err (dict_lookup safety_scores nationality)
                 (\<lambda>safety_score.
                    Inr (calculate_weighted_score cost_score style_score
                           (Py reliability_score) fuel_economy_score (Py safety_score) ws))))"

text \<open>Line 202: the recommendation shown on the page.\<close>

definition recommendation :: "number \<Rightarrow> number \<Rightarrow> string" where
  "recommendation challenger_weighted_score defender_weighted_score =
     (if ngt challenger_weighted_score defender_weighted_score
      then ''Replace the current car with the new one.''
      else ''Keep your car.'')"

record results =
  r_cash_flow_defender :: "number list"
  r_cash_flow_challenger :: "number list"
  r_defender_pv :: number
  r_challenger_pv :: number
  r_defender_weighted_score :: number
  r_challenger_weighted_score :: number
  r_recommendation :: string

text \<open>
  The results page, lines 165 to 202, in the order the script evaluates it; each step
  that can raise ends the page with its exception.
\<close>

definition results_page :: "dataset \<Rightarrow> inputs \<Rightarrow> py_error + results" where
  "results_page data inp =
     (let defender_fuel_economy_score = defender_fuel_economy_kmpl inp / 30;
          style_score_defender = style_score_defender_input inp / 10;
          style_score_challenger = style_score_challenger_input inp / 10
      in
      bind_err (predict_operating_costs (defender_operating_costs inp)) (\<lambda>predicted_defender_costs.
      let dep_rate_defender = dep_rate (origin_defender inp) in
      bind_err (dict_lookup challenger_nationality (challenger_car inp)) (\<lambda>nationality_challenger.
      let dep_rate_challenger = dep_rate nationality_challenger;
          residual_defender = residual_value (defender_market_value inp) dep_rate_defender in
      bind_err (dict_lookup (challenger_buying_prices data) (challenger_car inp)) (\<lambda>buying_price.
      let residual_challenger = residual_value buying_price dep_rate_challenger in
      bind_err (cash_flow_defender predicted_defender_costs residual_defender) (\<lambda>cf_defender.
      bind_err (dict_lookup (challenger_operating_costs_data data) (challenger_car inp)) (\<lambda>costs_challenger.
      bind_err (cash_flow_challenger (defender_market_value inp) buying_price costs_challenger
                  residual_challenger) (\<lambda>cf_challenger.
      bind_err (calculate_pv cf_defender default_discount_rate) (\<lambda>pv_defender.
      bind_err (calculate_pv cf_challenger default_discount_rate) (\<lambda>pv_challenger.
      bind_err (cost_scores pv_defender pv_challenger) (\<lambda>(cost_score_defender, cost_score_challenger).
      bind_err (weighted_score_for cost_score_defender (Py style_score_defender)
                  (origin_defender inp) (Inr (Py defender_fuel_economy_score)) (weights inp))
        (\<lambda>score_defender.
      bind_err (weighted_score_for cost_score_challenger (Py style_score_challenger)
                  nationality_challenger
                  (bind_err (dict_lookup (fuel_economy_data data) (challenger_car inp))
                     (\<lambda>fuel_economy_challenger. Inr (Py (fuel_economy_challenger / 30))))
                  (weights inp)) (\<lambda>score_challenger.
      Inr \<lparr>r_cash_flow_defender = cf_defender,
           r_cash_flow_challenger = cf_challenger,
           r_defender_pv = pv_defender,
           r_challenger_pv = pv_challenger,
           r_defender_weighted_score = score_defender,
           r_challenger_weighted_score = score_challenger,
           r_recommendation = recommendation score_challenger score_defender\<rparr>))))))))))))"

subsection \<open>Example runs\<close>

text \<open>
  The inputs are the default values of the input page (market value 11000, operating
  costs of 1000 in each of the three years, 12.7 km/l, style scores 6 and 9, the weights 4
  for cost and style and 1 for the others, the first nationality). The dataset is an
  example: the spreadsheets are not part of the sources.
\<close>

definition example_dataset :: dataset where
  "example_dataset =
     \<lparr>challenger_operating_costs_data = [''Toyota Camry'' \<mapsto> [500, 550, 600, 650, 700]],
      fuel_economy_data = [''Toyota Camry'' \<mapsto> 15],
      challenger_buying_prices = [''Toyota Camry'' \<mapsto> 25000]\<rparr>"

definition example_inputs :: inputs where
  "example_inputs =
     \<lparr>defender_market_value = 11000,
      defender_operating_costs = [1000, 1000, 1000],
      defender_fuel_economy_kmpl = 127 / 10,
      style_score_defender_input = 6,
      origin_defender = ''Japanese'',
      challenger_car = ''Toyota Camry'',
      style_score_challenger_input = 9,
      weights = \<lparr>w_cost = 4, w_style = 4, w_reliability = 1, w_fuel_economy = 1,
                  w_safety = 1\<rparr>\<rparr>"

section \<open>Properties\<close>

subsection \<open>Numbers\<close>

lemma nadd_finite:
  "num_value x = Fin a \<Longrightarrow> num_value y = Fin b \<Longrightarrow>
     num_value (nadd x y) = Fin (a + b) \<and> is_numpy (nadd x y) = (is_numpy x \<or> is_numpy y)"
  by (cases x; cases y) auto

lemma nneg_finite:
  "num_value x = Fin a \<Longrightarrow> num_value (nneg x) = Fin (- a) \<and> is_numpy (nneg x) = is_numpy x"
  by (cases x) auto


subsection \<open>The cost projection\<close>

text \<open>
  With the periods 1, 2, 3 the least-squares line through the costs \<open>a\<close>, \<open>b\<close>, \<open>c\<close>
  has the slope \<open>(c - a) / 2\<close> and passes through the mean at period 2.
\<close>

lemma fit_three:
  "fit [1, 2, 3] [a, b, c] =
     \<lparr>coef = (c - a) / 2, intercept = (a + b + c) / 3 - (c - a)\<rparr>"
proof -
  have m1: "mean [1, 2, 3] = 2" by (simp add: mean_def)
  have m2: "mean [a, b, c] = (a + b + c) / 3" by (simp add: mean_def)
  have sxx: "sum_list (map (\<lambda>x. (x - 2) * (x - 2)) [1, 2, 3 :: real]) = 2" by simp
  have sxy: "sum_list (map (\<lambda>(x, y). (x - 2) * (y - (a + b + c) / 3)) (zip [1, 2, 3] [a, b, c]))
               = c - a"
    by (simp add: field_simps)
  show ?thesis
    unfolding fit_def Let_def m1 m2 sxx sxy by (simp add: field_simps)
qed

text \<open>\<open>max(0, cf)\<close> on a prediction: the numpy number itself when it is positive, else 0.\<close>

lemma py_max_prediction:
  "py_max (Py 0) (Np (Fin p)) = (if 0 < p then Np (Fin p) else Py 0)"
  by (simp add: py_max_def ngt_def)

lemma predict_operating_costs_three:
  "predict_operating_costs [a, b, c] =
     Inr (map (\<lambda>x. py_max (Py 0) (Np (Fin ((c - a) / 2 * x + ((a + b + c) / 3 - (c - a))))))
            [4, 5, 6, 7, 8])"
  unfolding predict_operating_costs_def Let_def fit_three predict_def
  by (simp del: list.map)

text \<open>
  C3. A history of three equal costs \<open>v\<close> (a cost is not negative) is projected to
  five times \<open>v\<close>: the fitted line is flat. The five values are numpy numbers when
  \<open>v\<close> is positive and the integer 0 when \<open>v\<close> is zero.
\<close>

theorem project_flat:
  "0 \<le> v \<Longrightarrow>
     \<exists>ys. predict_operating_costs [v, v, v] = Inr ys \<and>
          map num_value ys = [Fin v, Fin v, Fin v, Fin v, Fin v] \<and>
          ys = replicate 5 (if 0 < v then Np (Fin v) else Py 0)"
  by (auto simp add: predict_operating_costs_three py_max_prediction numeral_eq_Suc)

theorem project_flat_witness:
  "(0::real) \<le> 1000 \<and>
   predict_operating_costs [1000, 1000, 1000] =
     Inr [Np (Fin 1000), Np (Fin 1000), Np (Fin 1000), Np (Fin 1000), Np (Fin 1000)]"
  using project_flat [of 1000] by (auto simp add: numeral_eq_Suc)

text \<open>
  A negative value is not a cost; the projection would clamp the flat line to zero.
\<close>

lemma project_flat_negative:
  "v < 0 \<Longrightarrow> predict_operating_costs [v, v, v] = Inr [Py 0, Py 0, Py 0, Py 0, Py 0]"
  by (simp add: predict_operating_costs_three py_max_prediction)

text \<open>
  C4. A history of three costs is projected to exactly five values, none of them
  negative: each is the value of the fitted line at the periods 4 to 8, replaced by 0
  where the line is below 0.
\<close>

theorem project_length_nonneg:
  "length h = 3 \<Longrightarrow>
     \<exists>ys. predict_operating_costs h = Inr ys \<and> length ys = 5 \<and>
          (\<forall>y \<in> set ys. \<exists>a. num_value y = Fin a \<and> 0 \<le> a) \<and>
          map num_value ys =
            map (\<lambda>p. Fin (if p < 0 then 0 else p)) (predict (fit [1, 2, 3] h) [4, 5, 6, 7, 8])"
  by (auto simp add: predict_operating_costs_def Let_def py_max_prediction predict_def)

theorem project_length_nonneg_witness:
  "length [1000, 700, 400 :: real] = 3 \<and>
   predict_operating_costs [1000, 700, 400] = Inr [Np (Fin 100), Py 0, Py 0, Py 0, Py 0] \<and>
   (\<exists>ys. predict_operating_costs [1000, 700, 400] = Inr ys \<and> length ys = 5 \<and>
         list_all (\<lambda>y. \<exists>a. num_value y = Fin a \<and> 0 \<le> a) ys \<and>
         map num_value ys =
           map (\<lambda>p. Fin (if p < 0 then 0 else p))
             (predict (fit [1, 2, 3] [1000, 700, 400]) [4, 5, 6, 7, 8]))"
  using project_length_nonneg [of "[1000, 700, 400]"]
  by (simp add: list_all_iff predict_operating_costs_three py_max_prediction)

text \<open>
  C5. The projection raises ValueError (the spec's InvalidInputError) exactly when the
  history does not have three entries, and returns a series exactly when it has three.
\<close>

theorem project_error_iff:
  "(predict_operating_costs h = Inl (Raised ValueError)) = (length h \<noteq> 3) \<and>
   (\<exists>ys. predict_operating_costs h = Inr ys) = (length h = 3)"
  by (auto simp add: predict_operating_costs_def Let_def)

subsection \<open>The present value\<close>

lemma py_pow_safe:
  assumes "safe_double (b ^ n)"
  shows "py_pow b n = Inr (Factor (b ^ n))" and "b ^ n \<noteq> 0"
proof -
  have hi: "(2::real) ^ 1023 < 2 ^ 1024 - 2 ^ 970" by simp
  have lo: "1 / 2 ^ 1075 < 1 / (2::real) ^ 1021" by simp
  from assms have "\<bar>b ^ n\<bar> < 2 ^ 1024 - 2 ^ 970" and "1 / 2 ^ 1075 < \<bar>b ^ n\<bar>"
    using hi lo unfolding safe_double_def by linarith+
  then show "py_pow b n = Inr (Factor (b ^ n))"
    by (simp add: py_pow_def Let_def)
  have "0 < 1 / (2::real) ^ 1021" by simp
  with assms have "0 < \<bar>b ^ n\<bar>"
    unfolding safe_double_def by linarith
  then show "b ^ n \<noteq> 0" by simp
qed

lemma div_factor_finite:
  "p \<noteq> 0 \<Longrightarrow> num_value x = Fin a \<Longrightarrow>
     \<exists>q. div_factor x (Factor p) = Inr q \<and> num_value q = Fin (a / p) \<and>
         is_numpy q = is_numpy x"
  by (cases x) auto

text \<open>The quotients of the list comprehension, when every power is in the range.\<close>

lemma quotients_safe:
  assumes "\<forall>t<length flows. safe_double (b ^ (n + t))"
    and "map num_value flows = map Fin as"
  shows "\<exists>ts. collect_err
            (map (\<lambda>(year, cf). bind_err (py_pow b year) (div_factor cf)) (enumerate n flows)) =
            Inr ts \<and>
          map num_value ts = map Fin (map (\<lambda>(year, a). a / b ^ year) (enumerate n as)) \<and>
          map is_numpy ts = map is_numpy flows"
  using assms
proof (induction flows arbitrary: n as)
  case Nil
  then show ?case by simp
next
  case (Cons x xs)
  from Cons.prems(2) obtain a as' where as: "as = a # as'" and xa: "num_value x = Fin a"
    and rest: "map num_value xs = map Fin as'"
    by (cases as) auto
  from Cons.prems(1) have "safe_double (b ^ (n + 0))" by blast
  then have safe0: "safe_double (b ^ n)" by simp
  from Cons.prems(1) have later: "\<forall>t<length xs. safe_double (b ^ (Suc n + t))"
    by auto
  from div_factor_finite [OF py_pow_safe(2) [OF safe0] xa] obtain q where
    q: "div_factor x (Factor (b ^ n)) = Inr q" "num_value q = Fin (a / b ^ n)"
       "is_numpy q = is_numpy x"
    by blast
  from Cons.IH [OF later rest] obtain ts where
    ts: "collect_err
           (map (\<lambda>(year, cf). bind_err (py_pow b year) (div_factor cf)) (enumerate (Suc n) xs)) =
           Inr ts"
        "map num_value ts = map Fin (map (\<lambda>(year, a). a / b ^ year) (enumerate (Suc n) as'))"
        "map is_numpy ts = map is_numpy xs"
    by blast
  show ?case
    using q ts by (simp add: as py_pow_safe(1) [OF safe0] bind_err_def)
qed

text \<open>\<open>sum\<close> over finite numbers: the sum of the values, numpy as soon as one of them is.\<close>

lemma foldl_nadd_finite:
  "map num_value ts = map Fin rs \<Longrightarrow> num_value acc = Fin r \<Longrightarrow>
     num_value (foldl nadd acc ts) = Fin (r + sum_list rs) \<and>
     is_numpy (foldl nadd acc ts) = (is_numpy acc \<or> (\<exists>t \<in> set ts. is_numpy t))"
proof (induction ts arbitrary: acc r rs)
  case Nil
  then show ?case by simp
next
  case (Cons t ts)
  from Cons.prems(1) obtain r' rs' where rs: "rs = r' # rs'" and t: "num_value t = Fin r'"
    and rest: "map num_value ts = map Fin rs'"
    by (cases rs) auto
  from nadd_finite [OF Cons.prems(2) t]
  have step: "num_value (nadd acc t) = Fin (r + r')"
    "is_numpy (nadd acc t) = (is_numpy acc \<or> is_numpy t)"
    by simp_all
  from Cons.IH [OF rest step(1)] step(2) show ?case
    by (auto simp add: rs add.assoc)
qed

lemma sum_list_enumerate_div:
  "sum_list (map (\<lambda>(year, cf). cf / b ^ year) (enumerate n cfs)) =
     (\<Sum>t<length cfs. cfs ! t / b ^ (n + t))"
proof (induction cfs arbitrary: n)
  case Nil
  show ?case by simp
next
  case (Cons c cs)
  show ?case
    by (simp add: Cons.IH [of "Suc n"] sum.lessThan_Suc_shift del: sum.lessThan_Suc)
qed

lemma calculate_pv_safe:
  assumes "\<forall>t<length flows. safe_double ((1 + rate) ^ t)"
    and "map num_value flows = map Fin as"
  shows "\<exists>res. calculate_pv flows rate = Inr res \<and>
           num_value res = Fin (\<Sum>t<length as. as ! t / (1 + rate) ^ t) \<and>
           is_numpy res = (\<exists>x \<in> set flows. is_numpy x)"
proof -
  from assms(1) have "\<forall>t<length flows. safe_double ((1 + rate) ^ (0 + t))" by simp
  from quotients_safe [OF this assms(2)] obtain ts where
    ts: "collect_err
           (map (\<lambda>(year, cf). bind_err (py_pow (1 + rate) year) (div_factor cf))
              (enumerate 0 flows)) = Inr ts"
        "map num_value ts =
           map Fin (map (\<lambda>(year, a). a / (1 + rate) ^ year) (enumerate 0 as))"
        "map is_numpy ts = map is_numpy flows"
    by blast
  have zero: "num_value (Py 0) = Fin 0" by simp
  from foldl_nadd_finite [OF ts(2) zero]
  have total: "num_value (foldl nadd (Py 0) ts) =
                 Fin (\<Sum>t<length as. as ! t / (1 + rate) ^ t)"
    and kind: "is_numpy (foldl nadd (Py 0) ts) = (\<exists>t \<in> set ts. is_numpy t)"
    by (simp_all add: sum_list_enumerate_div)
  have "(\<exists>t \<in> set ts. is_numpy t) = (True \<in> set (map is_numpy ts))" by auto
  also have "\<dots> = (\<exists>x \<in> set flows. is_numpy x)" unfolding ts(3) by auto
  finally have same: "(\<exists>t \<in> set ts. is_numpy t) = (\<exists>x \<in> set flows. is_numpy x)" .
  show ?thesis
    unfolding calculate_pv_def ts(1)
    using total kind same by (simp add: bind_err_def)
qed

text \<open>At the rate -1 the power of period 1 is \<open>0.0 ** 1\<close>: Python numbers cannot be divided.\<close>

lemma calculate_pv_singular:
  "calculate_pv (Py a # Py b # rest) (- 1) = Inl (Builtin ZeroDivisionError)"
  by (simp add: calculate_pv_def bind_err_def py_pow_def)

text \<open>
  C7, as amended. Take a cash flow of finite numbers of at most \<open>2 ^ 1023\<close> in absolute
  value and a rate for which every discount factor \<open>(1 + rate) ^ t\<close> of its periods is
  a power in the range of the doubles (as all are at the rate 0.05 of the script), and
  let the absolute values of the discounted flows add up to at most \<open>2 ^ 1023\<close>. Then
  nothing is raised and the present value is the sum of \<open>flows[t] / (1 + rate) ^ t\<close> over
  the periods, a numpy number as soon as one flow is. Period 0 is undiscounted: with the
  factors of the six periods in the range, the present value of \<open>[X, 0, 0, 0, 0, 0]\<close> is
  \<open>X\<close> for every such number \<open>X\<close>. The empty cash flow has the present value 0 at every
  rate. (The bounds on the flows and on their sum keep the doubles of the script finite;
  the model, which has no silent overflow, does not need them.)
\<close>

theorem calculate_pv_sum:
  "((\<forall>t<length flows. safe_double ((1 + rate) ^ t)) \<and> map num_value flows = map Fin as \<and>
      (\<forall>t<length as. \<bar>as ! t\<bar> \<le> 2 ^ 1023) \<and>
      (\<Sum>t<length as. \<bar>as ! t / (1 + rate) ^ t\<bar>) \<le> 2 ^ 1023 \<longrightarrow>
      (\<exists>res. calculate_pv flows rate = Inr res \<and>
            num_value res = Fin (\<Sum>t<length as. as ! t / (1 + rate) ^ t) \<and>
            is_numpy res = (\<exists>x \<in> set flows. is_numpy x))) \<and>
   ((\<forall>t<6. safe_double ((1 + rate) ^ t)) \<and> num_value X = Fin a \<and> \<bar>a\<bar> \<le> 2 ^ 1023 \<longrightarrow>
      calculate_pv [X, Py 0, Py 0, Py 0, Py 0, Py 0] rate = Inr X) \<and>
   calculate_pv [] rate = Inr (Py 0)"
proof (intro conjI impI)
  assume "(\<forall>t<length flows. safe_double ((1 + rate) ^ t)) \<and>
      map num_value flows = map Fin as \<and>
      (\<forall>t<length as. \<bar>as ! t\<bar> \<le> 2 ^ 1023) \<and>
      (\<Sum>t<length as. \<bar>as ! t / (1 + rate) ^ t\<bar>) \<le> 2 ^ 1023"
  then show "\<exists>res. calculate_pv flows rate = Inr res \<and>
            num_value res = Fin (\<Sum>t<length as. as ! t / (1 + rate) ^ t) \<and>
            is_numpy res = (\<exists>x \<in> set flows. is_numpy x)"
    using calculate_pv_safe by blast
next
  assume "(\<forall>t<6. safe_double ((1 + rate) ^ t)) \<and> num_value X = Fin a \<and> \<bar>a\<bar> \<le> 2 ^ 1023"
  then have safe: "\<forall>t<6. safe_double ((1 + rate) ^ t)" and finite: "num_value X = Fin a"
    by simp_all
  have six: "safe_double ((1 + rate) ^ t)" if "t \<in> {0, 1, 2, 3, 4, 5}" for t
  proof -
    from that have "t < 6" by auto
    with safe show ?thesis by blast
  qed
  note pw = py_pow_safe [OF six]
  have nz: "(1 + rate) ^ t \<noteq> 0" if "t \<in> {0, 1, 2, 3, 4, 5}" for t
    using pw(2) [OF that] .
  have first: "bind_err (py_pow (1 + rate) 0) (div_factor X) = Inr X"
  proof (cases X)
    case (Py a)
    then show ?thesis using pw(1) [of 0] by (simp add: bind_err_def)
  next
    case (Np v)
    then show ?thesis using pw(1) [of 0] by (cases v) (simp_all add: bind_err_def)
  qed
  have later: "bind_err (py_pow (1 + rate) t) (div_factor (Py 0)) = Inr (Py 0)"
    if "t \<in> {0, 1, 2, 3, 4, 5}" for t
    using pw(1) [OF that] nz [OF that] by (simp add: bind_err_def)
  have quotients:
    "map (\<lambda>(year, cf). bind_err (py_pow (1 + rate) year) (div_factor cf))
       [(0, X), (1, Py 0), (2, Py 0), (3, Py 0), (4, Py 0), (5, Py 0)] =
     [Inr X, Inr (Py 0), Inr (Py 0), Inr (Py 0), Inr (Py 0), Inr (Py 0)]"
    using first later [of 1] later [of 2] later [of 3] later [of 4] later [of 5] by simp
  have en: "enumerate 0 [X, Py 0, Py 0, Py 0, Py 0, Py 0] =
      [(0, X), (1, Py 0), (2, Py 0), (3, Py 0), (4, Py 0), (5, Py 0)]"
    by (simp add: eval_nat_numeral)
  have keep: "nadd (nadd (nadd (nadd (nadd (nadd (Py 0) X) (Py 0)) (Py 0)) (Py 0)) (Py 0)) (Py 0)
      = X"
  proof (cases X)
    case (Py a)
    then show ?thesis by simp
  next
    case (Np v)
    then show ?thesis by (cases v) simp_all
  qed
  show "calculate_pv [X, Py 0, Py 0, Py 0, Py 0, Py 0] rate = Inr X"
    unfolding calculate_pv_def en quotients
    by (simp add: bind_err_def keep)
next
  show "calculate_pv [] rate = Inr (Py 0)"
    by (simp add: calculate_pv_def bind_err_def)
qed

lemma safe_double_default_rate:
  "safe_double ((1 + 5 / 100) ^ t)" if "t < 6" for t
proof -
  from that have "t \<in> {0, 1, 2, 3, 4, 5}" by auto
  then show ?thesis
    by (auto simp add: safe_double_def power_divide)
qed

theorem calculate_pv_sum_witness:
  "calculate_pv [Py 100, Py 0, Py 0, Py 0, Py 0, Py 0] (5 / 100) = Inr (Py 100) \<and>
   calculate_pv [Np (Fin 100), Py 0, Py 0, Py 0, Py 0, Py 0] (5 / 100) = Inr (Np (Fin 100)) \<and>
   calculate_pv [Py 0, Np (Fin 105)] (5 / 100) = Inr (Np (Fin 100))"
proof -
  have safe6: "\<forall>t<6. safe_double ((1 + 5 / 100) ^ t)"
    using safe_double_default_rate by blast
  then have safe2: "\<forall>t<length [Py 0, Np (Fin 105)]. safe_double ((1 + 5 / 100) ^ t)"
    by simp
  have vals: "map num_value [Py 0, Np (Fin 105)] = map Fin [0, 105]" by simp
  have each: "\<forall>t<length [0, 105 :: real]. \<bar>[0, 105] ! t\<bar> \<le> (2::real) ^ 1023"
    by (simp add: less_Suc_eq numeral_2_eq_2)
  have bound: "(\<Sum>t<length [0, 105 :: real]. \<bar>[0, 105] ! t / (1 + 5 / 100) ^ t\<bar>)
      \<le> (2::real) ^ 1023"
    by (simp add: lessThan_Suc numeral_2_eq_2)
  from calculate_pv_sum [where flows = "[Py 0, Np (Fin 105)]" and rate = "5 / 100"
      and as = "[0, 105]", THEN conjunct1, THEN mp,
      OF conjI [OF safe2 conjI [OF vals conjI [OF each bound]]]]
  obtain res where res: "calculate_pv [Py 0, Np (Fin 105)] (5 / 100) = Inr res"
      "num_value res = Fin (\<Sum>t<length [0, 105 :: real]. [0, 105] ! t / (1 + 5 / 100) ^ t)"
      "is_numpy res = (\<exists>x \<in> set [Py 0, Np (Fin 105)]. is_numpy x)"
    by blast
  from res(2) have "num_value res = Fin 100"
    by (simp add: lessThan_Suc numeral_2_eq_2)
  moreover from res(3) have "is_numpy res" by simp
  ultimately have "res = Np (Fin 100)" by (cases res) auto
  with res(1) have sum: "calculate_pv [Py 0, Np (Fin 105)] (5 / 100) = Inr (Np (Fin 100))"
    by simp
  have x: "calculate_pv [X, Py 0, Py 0, Py 0, Py 0, Py 0] (5 / 100) = Inr X"
    if "num_value X = Fin 100" for X
    using calculate_pv_sum [where rate = "5 / 100" and X = X and a = 100, THEN conjunct2,
        THEN conjunct1] safe6 that
    by simp
  from x [of "Py 100"] x [of "Np (Fin 100)"] sum show ?thesis by simp
qed

text \<open>
  C7 as it is stated fails at the rate -1 and at the rate \<open>2 ^ 250\<close>: the present
  value of \<open>[1, 0, 0, 0, 0, 0]\<close> is not 1, the division for period 1 raises
  ZeroDivisionError at the one and the power for period 5 raises OverflowError at the
  other.
\<close>

theorem calculate_pv_counterexample:
  "calculate_pv [Py 1, Py 0, Py 0, Py 0, Py 0, Py 0] (- 1) = Inl (Builtin ZeroDivisionError) \<and>
   calculate_pv [Py 1, Py 0, Py 0, Py 0, Py 0, Py 0] (2 ^ 250) = Inl (Builtin OverflowError) \<and>
   calculate_pv [Py 1, Py 0, Py 0, Py 0, Py 0, Py 0] (- 1) \<noteq> Inr (Py 1) \<and>
   calculate_pv [Py 1, Py 0, Py 0, Py 0, Py 0, Py 0] (2 ^ 250) \<noteq> Inr (Py 1)"
  by (simp add: calculate_pv_def bind_err_def py_pow_def Let_def)

subsection \<open>The example run\<close>

text \<open>
  At the rate of the script the powers of up to six periods are in the range of the
  doubles: \<open>calculate_pv\<close> divides by the exact powers of 1.05.
\<close>

lemma calculate_pv_default:
  assumes "length xs \<le> 6"
  shows "calculate_pv xs default_discount_rate =
           bind_err
             (collect_err (map (\<lambda>(year, cf). ndiv cf (Py ((21 / 20) ^ year))) (enumerate 0 xs)))
             (\<lambda>ts. Inr (foldl nadd (Py 0) ts))"
proof -
  have "(\<lambda>(year, cf). bind_err (py_pow (1 + default_discount_rate) year) (div_factor cf)) p =
        (\<lambda>(year, cf). ndiv cf (Py ((21 / 20) ^ year))) p"
    if "p \<in> set (enumerate 0 xs)" for p
  proof -
    obtain year cf where p: "p = (year, cf)" by (cases p)
    with that assms have "year < 6" by (auto simp add: in_set_enumerate_eq)
    then have "safe_double ((1 + 5 / 100) ^ year)" by (rule safe_double_default_rate)
    from py_pow_safe(1) [OF this] show ?thesis
      by (simp add: p default_discount_rate_def bind_err_def)
  qed
  then have same:
    "map (\<lambda>(year, cf). bind_err (py_pow (1 + default_discount_rate) year) (div_factor cf))
       (enumerate 0 xs) =
     map (\<lambda>(year, cf). ndiv cf (Py ((21 / 20) ^ year))) (enumerate 0 xs)"
    by (intro map_cong) auto
  show ?thesis
    unfolding calculate_pv_def same by (rule refl)
qed

lemmas page_simps =
  results_page_def Let_def predict_operating_costs_three py_max_prediction dep_rate_def
  dict_get_def depreciation_rates_def dict_lookup_def challenger_nationality_def
  residual_value_def cash_flow_defender_def cash_flow_challenger_def build_cash_flow_def
  list_index_def calculate_pv_default cost_scores_def weighted_score_for_def
  reliability_scores_def safety_scores_def calculate_weighted_score_def recommendation_def
  ngt_def bind_err_def power_divide

lemma example_run:
  "results_page example_dataset example_inputs =
     Inr \<lparr>r_cash_flow_defender =
            [Py 0, Np (Fin (- 1000)), Np (Fin (- 1000)), Np (Fin (- 1000)), Np (Fin (- 1000)),
             Np (Fin (51424653939 / 10000000))],
          r_cash_flow_challenger =
            [Py (- 14000), Py (- 500), Py (- 550), Py (- 600), Py (- 650),
             Py (5304059449 / 400000)],
          r_defender_pv = Np (Fin (5482970168 / 11344725)),
          r_challenger_pv = Py (- (23027968408 / 4084101)),
          r_defender_weighted_score = Np (Fin (43415899733093 / 4934554487700)),
          r_challenger_weighted_score = Np (Fin (875881938273 / 164485149590)),
          r_recommendation = ''Keep your car.''\<rparr>"
  by (simp add: page_simps example_dataset_def example_inputs_def)

subsection \<open>The cash flows\<close>

lemma build_cash_flow_Inr:
  assumes "build_cash_flow first operating_costs residual = Inr cf"
  shows "cf = [first, nneg (operating_costs ! 0), nneg (operating_costs ! 1),
               nneg (operating_costs ! 2), nneg (operating_costs ! 3),
               nadd (nneg (operating_costs ! 4)) residual]"
proof -
  from assms have "4 < length operating_costs"
    by (auto simp add: build_cash_flow_def list_index_def bind_err_def split: if_splits)
  then obtain a b c d e rest where "operating_costs = a # b # c # d # e # rest"
    by (cases operating_costs; cases "tl operating_costs"; cases "tl (tl operating_costs)";
        cases "tl (tl (tl operating_costs))"; cases "tl (tl (tl (tl operating_costs)))") auto
  with assms show ?thesis
    by (auto simp add: build_cash_flow_def list_index_def bind_err_def)
qed

lemma build_cash_flow_five:
  assumes "length operating_costs = 5"
  shows "build_cash_flow first operating_costs residual =
           Inr [first, nneg (operating_costs ! 0), nneg (operating_costs ! 1),
                nneg (operating_costs ! 2), nneg (operating_costs ! 3),
                nadd (nneg (operating_costs ! 4)) residual]"
proof -
  from assms have "\<exists>cf. build_cash_flow first operating_costs residual = Inr cf"
    by (simp add: build_cash_flow_def list_index_def bind_err_def)
  then show ?thesis
    using build_cash_flow_Inr by blast
qed

text \<open>The values of a cash flow built from finite costs.\<close>

lemma cash_flow_values:
  assumes "4 < length operating_costs" and "map num_value operating_costs = map Fin ps"
    and "num_value first = Fin f"
  shows "map num_value
           [first, nneg (operating_costs ! 0), nneg (operating_costs ! 1),
            nneg (operating_costs ! 2), nneg (operating_costs ! 3),
            nadd (nneg (operating_costs ! 4)) (Py residual)] =
         map Fin [f, - (ps ! 0), - (ps ! 1), - (ps ! 2), - (ps ! 3), - (ps ! 4) + residual]"
proof -
  from assms(2) have len: "length ps = length operating_costs"
    by (metis length_map)
  have at: "num_value (operating_costs ! i) = Fin (ps ! i)" if "i < 5" for i
  proof -
    from that assms(1) have i: "i < length operating_costs" by simp
    then have "map num_value operating_costs ! i = num_value (operating_costs ! i)"
      by simp
    moreover from i len have "map Fin ps ! i = Fin (ps ! i)" by simp
    ultimately show ?thesis using assms(2) by simp
  qed
  have neg: "num_value (nneg (operating_costs ! i)) = Fin (- (ps ! i))" if "i < 5" for i
    using nneg_finite [OF at [OF that]] by simp
  have last: "num_value (nadd (nneg (operating_costs ! 4)) (Py residual)) =
      Fin (- (ps ! 4) + residual)"
    using nadd_finite [OF neg [of 4], of "Py residual" residual] by simp
  show ?thesis
    using neg [of 0] neg [of 1] neg [of 2] neg [of 3] last assms(3) by simp
qed

lemma predict_operating_costs_values:
  assumes "predict_operating_costs h = Inr p"
  shows "length p = 5 \<and> (\<exists>ps. map num_value p = map Fin ps)"
proof -
  from assms have p: "p = map (\<lambda>cf. py_max (Py 0) (Np (Fin cf))) (predict (fit [1, 2, 3] h) [4, 5, 6, 7, 8])"
    by (auto simp add: predict_operating_costs_def Let_def split: if_splits)
  have "map num_value p =
      map Fin (map (\<lambda>q. if 0 < q then q else 0) (predict (fit [1, 2, 3] h) [4, 5, 6, 7, 8]))"
    unfolding p by (simp add: py_max_prediction predict_def)
  moreover have "length p = 5" unfolding p by (simp add: predict_def)
  ultimately show ?thesis by blast
qed

lemma results_page_cash_flows:
  "results_page data inp = Inr r \<Longrightarrow>
     \<exists>p n price costs.
        predict_operating_costs (defender_operating_costs inp) = Inr p \<and>
        challenger_nationality (challenger_car inp) = Some n \<and>
        challenger_buying_prices data (challenger_car inp) = Some price \<and>
        challenger_operating_costs_data data (challenger_car inp) = Some costs \<and>
        cash_flow_defender p
          (defender_market_value inp * (1 - dep_rate (origin_defender inp)) ^ 5) =
          Inr (r_cash_flow_defender r) \<and>
        cash_flow_challenger (defender_market_value inp) price costs
          (price * (1 - dep_rate n) ^ 5) = Inr (r_cash_flow_challenger r)"
  by (auto simp add: results_page_def bind_err_def Let_def dict_lookup_def residual_value_def
      split: sum.splits prod.splits option.splits)

text \<open>
  C6. For a series of five operating costs the cash flow has six entries: the acquisition
  delta (0 for the car that is kept, the market value of the old car less the price of the
  new one for the replacement), the negated costs of the years 1 to 4, and the negated
  cost of year 5 plus the residual value. On the results page the residual value of
  each option is its price times \<open>(1 - depreciation rate) ^ 5\<close>. The costs of the
  defender are the predictions (\<open>ps\<close> their values), the costs of the challenger are the
  Python numbers of the spreadsheet.
\<close>

theorem cash_flow_shape:
  "(length operating_costs = 5 \<longrightarrow>
      cash_flow_defender operating_costs residual =
        Inr [Py 0, nneg (operating_costs ! 0), nneg (operating_costs ! 1),
             nneg (operating_costs ! 2), nneg (operating_costs ! 3),
             nadd (nneg (operating_costs ! 4)) (Py residual)] \<and>
      (map num_value operating_costs = map Fin ps \<longrightarrow>
         (\<exists>cf. cash_flow_defender operating_costs residual = Inr cf \<and>
               map num_value cf =
                 map Fin [0, - (ps ! 0), - (ps ! 1), - (ps ! 2), - (ps ! 3),
                          - (ps ! 4) + residual]))) \<and>
   (length costs = 5 \<longrightarrow>
      cash_flow_challenger market_value buying_price costs residual =
        Inr (map Py [market_value - buying_price, - (costs ! 0), - (costs ! 1),
                     - (costs ! 2), - (costs ! 3), - (costs ! 4) + residual])) \<and>
   (results_page data inp = Inr r \<longrightarrow>
      length (r_cash_flow_defender r) = 6 \<and> length (r_cash_flow_challenger r) = 6 \<and>
      (\<exists>p ps n price costs.
         predict_operating_costs (defender_operating_costs inp) = Inr p \<and>
         map num_value p = map Fin ps \<and>
         challenger_nationality (challenger_car inp) = Some n \<and>
         challenger_buying_prices data (challenger_car inp) = Some price \<and>
         challenger_operating_costs_data data (challenger_car inp) = Some costs \<and>
         r_cash_flow_defender r =
           [Py 0, nneg (p ! 0), nneg (p ! 1), nneg (p ! 2), nneg (p ! 3),
            nadd (nneg (p ! 4))
              (Py (defender_market_value inp * (1 - dep_rate (origin_defender inp)) ^ 5))] \<and>
         map num_value (r_cash_flow_defender r) =
           map Fin [0, - (ps ! 0), - (ps ! 1), - (ps ! 2), - (ps ! 3),
                    - (ps ! 4) + defender_market_value inp *
                                   (1 - dep_rate (origin_defender inp)) ^ 5] \<and>
         r_cash_flow_challenger r =
           map Py [defender_market_value inp - price, - (costs ! 0), - (costs ! 1),
                   - (costs ! 2), - (costs ! 3), - (costs ! 4) + price * (1 - dep_rate n) ^ 5]))"
proof (intro conjI impI)
  assume five: "length operating_costs = 5"
  show shape: "cash_flow_defender operating_costs residual =
        Inr [Py 0, nneg (operating_costs ! 0), nneg (operating_costs ! 1),
             nneg (operating_costs ! 2), nneg (operating_costs ! 3),
             nadd (nneg (operating_costs ! 4)) (Py residual)]"
    by (simp add: cash_flow_defender_def build_cash_flow_five [OF five])
  assume "map num_value operating_costs = map Fin ps"
  from cash_flow_values [OF _ this, of "Py 0" 0 residual] five shape
  show "\<exists>cf. cash_flow_defender operating_costs residual = Inr cf \<and>
               map num_value cf =
                 map Fin [0, - (ps ! 0), - (ps ! 1), - (ps ! 2), - (ps ! 3),
                          - (ps ! 4) + residual]"
    by simp
next
  assume five: "length costs = 5"
  then obtain a b c d e where "costs = [a, b, c, d, e]"
    by (auto simp add: length_Suc_conv eval_nat_numeral)
  then show "cash_flow_challenger market_value buying_price costs residual =
        Inr (map Py [market_value - buying_price, - (costs ! 0), - (costs ! 1),
                     - (costs ! 2), - (costs ! 3), - (costs ! 4) + residual])"
    by (simp add: cash_flow_challenger_def build_cash_flow_def list_index_def bind_err_def)
next
  assume page: "results_page data inp = Inr r"
  from results_page_cash_flows [OF page] obtain p n price costs where
    p: "predict_operating_costs (defender_operating_costs inp) = Inr p"
    and parts: "challenger_nationality (challenger_car inp) = Some n"
      "challenger_buying_prices data (challenger_car inp) = Some price"
      "challenger_operating_costs_data data (challenger_car inp) = Some costs"
    and d: "cash_flow_defender p
          (defender_market_value inp * (1 - dep_rate (origin_defender inp)) ^ 5) =
          Inr (r_cash_flow_defender r)"
    and c: "cash_flow_challenger (defender_market_value inp) price costs
          (price * (1 - dep_rate n) ^ 5) = Inr (r_cash_flow_challenger r)"
    by blast
  from predict_operating_costs_values [OF p] obtain ps where
    len: "length p = 5" and ps: "map num_value p = map Fin ps"
    by blast
  from d have d': "r_cash_flow_defender r =
           [Py 0, nneg (p ! 0), nneg (p ! 1), nneg (p ! 2), nneg (p ! 3),
            nadd (nneg (p ! 4))
              (Py (defender_market_value inp * (1 - dep_rate (origin_defender inp)) ^ 5))]"
    unfolding cash_flow_defender_def by (rule build_cash_flow_Inr)
  from len have "4 < length p" by simp
  from cash_flow_values [OF this ps, of "Py 0" 0] d'
  have dv: "map num_value (r_cash_flow_defender r) =
           map Fin [0, - (ps ! 0), - (ps ! 1), - (ps ! 2), - (ps ! 3),
                    - (ps ! 4) + defender_market_value inp *
                                   (1 - dep_rate (origin_defender inp)) ^ 5]"
    by simp
  from c have c0: "r_cash_flow_challenger r =
           [Py (defender_market_value inp - price), nneg (map Py costs ! 0),
            nneg (map Py costs ! 1), nneg (map Py costs ! 2), nneg (map Py costs ! 3),
            nadd (nneg (map Py costs ! 4)) (Py (price * (1 - dep_rate n) ^ 5))]"
    unfolding cash_flow_challenger_def by (rule build_cash_flow_Inr)
  from c have "4 < length costs"
    by (auto simp add: cash_flow_challenger_def build_cash_flow_def list_index_def bind_err_def
        split: if_splits)
  then have "map Py costs ! i = Py (costs ! i)" if "i < 5" for i
    using that by simp
  from this [of 0] this [of 1] this [of 2] this [of 3] this [of 4] c0 have c': "r_cash_flow_challenger r =
           map Py [defender_market_value inp - price, - (costs ! 0), - (costs ! 1),
                   - (costs ! 2), - (costs ! 3), - (costs ! 4) + price * (1 - dep_rate n) ^ 5]"
    by simp
  from d' show "length (r_cash_flow_defender r) = 6" by simp
  from c' show "length (r_cash_flow_challenger r) = 6" by simp
  from p ps parts d' dv c' show "\<exists>p ps n price costs.
         predict_operating_costs (defender_operating_costs inp) = Inr p \<and>
         map num_value p = map Fin ps \<and>
         challenger_nationality (challenger_car inp) = Some n \<and>
         challenger_buying_prices data (challenger_car inp) = Some price \<and>
         challenger_operating_costs_data data (challenger_car inp) = Some costs \<and>
         r_cash_flow_defender r =
           [Py 0, nneg (p ! 0), nneg (p ! 1), nneg (p ! 2), nneg (p ! 3),
            nadd (nneg (p ! 4))
              (Py (defender_market_value inp * (1 - dep_rate (origin_defender inp)) ^ 5))] \<and>
         map num_value (r_cash_flow_defender r) =
           map Fin [0, - (ps ! 0), - (ps ! 1), - (ps ! 2), - (ps ! 3),
                    - (ps ! 4) + defender_market_value inp *
                                   (1 - dep_rate (origin_defender inp)) ^ 5] \<and>
         r_cash_flow_challenger r =
           map Py [defender_market_value inp - price, - (costs ! 0), - (costs ! 1),
                   - (costs ! 2), - (costs ! 3), - (costs ! 4) + price * (1 - dep_rate n) ^ 5]"
    by blast
qed

theorem cash_flow_shape_witness:
  "length [Np (Fin 500), Np (Fin 550), Np (Fin 600), Py 0, Np (Fin 700)] = 5 \<and>
   cash_flow_defender [Np (Fin 500), Np (Fin 550), Np (Fin 600), Py 0, Np (Fin 700)] 6000 =
     Inr [Py 0, Np (Fin (- 500)), Np (Fin (- 550)), Np (Fin (- 600)), Py 0, Np (Fin 5300)] \<and>
   length [500, 550, 600, 650, 700 :: real] = 5 \<and>
   cash_flow_challenger 11000 25000 [500, 550, 600, 650, 700] 6000 =
     Inr [Py (- 14000), Py (- 500), Py (- 550), Py (- 600), Py (- 650), Py 5300] \<and>
   (\<exists>r. results_page example_dataset example_inputs = Inr r \<and>
        length (r_cash_flow_defender r) = 6 \<and> length (r_cash_flow_challenger r) = 6 \<and>
        map num_value (r_cash_flow_defender r) =
          map Fin [0, - 1000, - 1000, - 1000, - 1000, - 1000 + 11000 * (1 - 11 / 100) ^ 5] \<and>
        r_cash_flow_challenger r =
          map Py [11000 - 25000, - 500, - 550, - 600, - 650,
                  - 700 + 25000 * (1 - 11 / 100) ^ 5])"
proof -
  have shape: "cash_flow_defender [Np (Fin 500), Np (Fin 550), Np (Fin 600), Py 0, Np (Fin 700)]
       6000 =
     Inr [Py 0, Np (Fin (- 500)), Np (Fin (- 550)), Np (Fin (- 600)), Py 0, Np (Fin 5300)] \<and>
   cash_flow_challenger 11000 25000 [500, 550, 600, 650, 700] 6000 =
     Inr [Py (- 14000), Py (- 500), Py (- 550), Py (- 600), Py (- 650), Py 5300]"
    using cash_flow_shape [where operating_costs =
          "[Np (Fin 500), Np (Fin 550), Np (Fin 600), Py 0, Np (Fin 700)]"
        and residual = 6000 and market_value = 11000 and buying_price = 25000
        and costs = "[500, 550, 600, 650, 700]"]
    by simp
  have page: "\<exists>r. results_page example_dataset example_inputs = Inr r \<and>
        length (r_cash_flow_defender r) = 6 \<and> length (r_cash_flow_challenger r) = 6 \<and>
        map num_value (r_cash_flow_defender r) =
          map Fin [0, - 1000, - 1000, - 1000, - 1000, - 1000 + 11000 * (1 - 11 / 100) ^ 5] \<and>
        r_cash_flow_challenger r =
          map Py [11000 - 25000, - 500, - 550, - 600, - 650,
                  - 700 + 25000 * (1 - 11 / 100) ^ 5]"
    using cash_flow_shape [THEN conjunct2, THEN conjunct2, rule_format, OF example_run]
    unfolding example_run by (simp add: power_divide)
  from shape page show ?thesis by simp
qed

subsection \<open>The cost scores\<close>




text \<open>
  C8, as amended. The divisions of lines 183 and 184 are not guarded by the script; no
  \<open>raise\<close> statement is involved in what they do. When the two present values add up to
  zero and both are Python numbers, the first division raises the ZeroDivisionError of
  Python. When one of them is a numpy number, nothing is raised: each cost score is the
  infinity with the sign of its numerator, or NaN when the numerator is zero.
\<close>

theorem cost_scores_unguarded:
  "(num_value d = Fin a \<and> num_value c = Fin b \<and> a + b = 0 \<longrightarrow>
      (\<not> is_numpy d \<and> \<not> is_numpy c \<longrightarrow>
         cost_scores d c = Inl (Builtin ZeroDivisionError)) \<and>
      (is_numpy d \<or> is_numpy c \<longrightarrow>
         cost_scores d c =
           Inr (Np (if 0 < b then PInf else if b < 0 then NInf else NaN),
                Np (if 0 < a then PInf else if a < 0 then NInf else NaN)))) \<and>
   cost_scores d c \<noteq> Inl (Raised e)"
proof (intro conjI impI)
  assume zero: "num_value d = Fin a \<and> num_value c = Fin b \<and> a + b = 0"
  {
    assume "\<not> is_numpy d \<and> \<not> is_numpy c"
    with zero show "cost_scores d c = Inl (Builtin ZeroDivisionError)"
      by (cases d; cases c) (auto simp add: cost_scores_def Let_def bind_err_def)
  }
  {
    assume "is_numpy d \<or> is_numpy c"
    with zero show "cost_scores d c =
           Inr (Np (if 0 < b then PInf else if b < 0 then NInf else NaN),
                Np (if 0 < a then PInf else if a < 0 then NInf else NaN))"
      by (cases d; cases c) (auto simp add: cost_scores_def Let_def bind_err_def)
  }
next
  show "cost_scores d c \<noteq> Inl (Raised e)"
    by (cases d; cases c) (auto simp add: cost_scores_def Let_def bind_err_def)
qed

theorem cost_scores_unguarded_witness:
  "cost_scores (Py 5) (Py (- 5)) = Inl (Builtin ZeroDivisionError) \<and>
   cost_scores (Np (Fin 5)) (Py (- 5)) = Inr (Np NInf, Np PInf) \<and>
   cost_scores (Np (Fin 0)) (Py 0) = Inr (Np NaN, Np NaN)"
  using cost_scores_unguarded [of "Py 5" 5 "Py (- 5)" "- 5"]
    cost_scores_unguarded [of "Np (Fin 5)" 5 "Py (- 5)" "- 5"]
    cost_scores_unguarded [of "Np (Fin 0)" 0 "Py 0" 0]
  by simp

text \<open>
  Two runs of the results page with a total of zero. In the first every input is zero:
  no prediction is positive, both present values are the Python number 0 and the page
  ends with ZeroDivisionError. In the second the defender has operating costs of 1000 and
  no market value, and the spreadsheet has a challenger with a price of zero and
  operating costs of -1000, so that its present value is the negated present value of
  the defender: the total is a numpy zero, the cost scores are infinite and the page
  goes on to the weighted scores and the recommendation.
\<close>

lemma example_run_all_zero:
  "results_page
     \<lparr>challenger_operating_costs_data = [''Toyota Camry'' \<mapsto> [0, 0, 0, 0, 0]],
      fuel_economy_data = [''Toyota Camry'' \<mapsto> 15],
      challenger_buying_prices = [''Toyota Camry'' \<mapsto> 0]\<rparr>
     (example_inputs\<lparr>defender_market_value := 0, defender_operating_costs := [0, 0, 0]\<rparr>) =
   Inl (Builtin ZeroDivisionError)"
  by (simp add: page_simps example_inputs_def)

lemma example_run_zero_total:
  "results_page
     \<lparr>challenger_operating_costs_data =
        [''Toyota Camry'' \<mapsto> [- 1000, - 1000, - 1000, - 1000, - 1000]],
      fuel_economy_data = [''Toyota Camry'' \<mapsto> 15],
      challenger_buying_prices = [''Toyota Camry'' \<mapsto> 0]\<rparr>
     (example_inputs\<lparr>defender_market_value := 0\<rparr>) =
   Inr \<lparr>r_cash_flow_defender =
          [Py 0, Np (Fin (- 1000)), Np (Fin (- 1000)), Np (Fin (- 1000)), Np (Fin (- 1000)),
           Np (Fin (- 1000))],
        r_cash_flow_challenger = [Py 0, Py 1000, Py 1000, Py 1000, Py 1000, Py 1000],
        r_defender_pv = Np (Fin (- (17682020000 / 4084101))),
        r_challenger_pv = Py (17682020000 / 4084101),
        r_defender_weighted_score = Np PInf,
        r_challenger_weighted_score = Np NInf,
        r_recommendation = ''Keep your car.''\<rparr>"
  by (simp add: page_simps example_inputs_def)

text \<open>
  C8 as it is stated fails: with both present values zero the exception is the one of
  the division between Python numbers, not one that an explicit guard of the script
  raises; and with a numpy present value there is no exception at all: the scores are
  NaN when both present values are zero, and infinite on the second page above.
\<close>

theorem cost_scores_guard_counterexample:
  "cost_scores (Py 0) (Py 0) = Inl (Builtin ZeroDivisionError) \<and>
   cost_scores (Py 0) (Py 0) \<noteq> Inl (Raised ZeroDivisionError) \<and>
   cost_scores (Np (Fin 0)) (Py 0) = Inr (Np NaN, Np NaN) \<and>
   cost_scores (Np (Fin (- (17682020000 / 4084101)))) (Py (17682020000 / 4084101)) =
     Inr (Np PInf, Np NInf) \<and>
   (\<exists>r. results_page
          \<lparr>challenger_operating_costs_data =
             [''Toyota Camry'' \<mapsto> [- 1000, - 1000, - 1000, - 1000, - 1000]],
           fuel_economy_data = [''Toyota Camry'' \<mapsto> 15],
           challenger_buying_prices = [''Toyota Camry'' \<mapsto> 0]\<rparr>
          (example_inputs\<lparr>defender_market_value := 0\<rparr>) = Inr r \<and>
        r_defender_weighted_score r = Np PInf \<and> r_challenger_weighted_score r = Np NInf \<and>
        r_recommendation r = ''Keep your car.'')"
  unfolding example_run_zero_total
  by (simp add: cost_scores_def Let_def bind_err_def)

subsection \<open>The lookup tables\<close>

lemma reliability_scores_None:
  "(reliability_scores n = None) = (n \<notin> {''Japanese'', ''Korean'', ''American'', ''German''})"
  by (simp add: reliability_scores_def)

lemma safety_scores_None:
  "(safety_scores n = None) = (n \<notin> {''Japanese'', ''Korean'', ''American'', ''German''})"
  by (simp add: safety_scores_def)

lemma depreciation_rates_None:
  "(depreciation_rates n = None) = (n \<notin> {''Japanese'', ''Korean'', ''American'', ''German''})"
  by (simp add: depreciation_rates_def)

text \<open>
  C9. A call that composes a weighted score (with a fuel economy score that is at hand)
  raises KeyError (the spec's UnknownCategoryError) exactly for a nationality that is not
  one of Japanese, Korean, American and German; for each of the four it returns the
  weighted score with the reliability and the safety score of the tables.
\<close>

theorem unknown_category:
  "(weighted_score_for c s n (Inr f) ws = Inl (Builtin KeyError)) =
     (n \<notin> {''Japanese'', ''Korean'', ''American'', ''German''}) \<and>
   weighted_score_for c s ''Japanese'' (Inr f) ws =
     Inr (calculate_weighted_score c s (Py (9 / 10)) f (Py (7 / 10)) ws) \<and>
   weighted_score_for c s ''Korean'' (Inr f) ws =
     Inr (calculate_weighted_score c s (Py (8 / 10)) f (Py (8 / 10)) ws) \<and>
   weighted_score_for c s ''American'' (Inr f) ws =
     Inr (calculate_weighted_score c s (Py (8 / 10)) f (Py (85 / 100)) ws) \<and>
   weighted_score_for c s ''German'' (Inr f) ws =
     Inr (calculate_weighted_score c s (Py (7 / 10)) f (Py (9 / 10)) ws)"
  by (simp add: weighted_score_for_def dict_lookup_def bind_err_def reliability_scores_def
      safety_scores_def)

theorem unknown_category_witness:
  "weighted_score_for (Np (Fin (1 / 2))) (Py (6 / 10)) ''Martian'' (Inr (Py (127 / 300)))
     \<lparr>w_cost = 4, w_style = 4, w_reliability = 1, w_fuel_economy = 1, w_safety = 1\<rparr> =
     Inl (Builtin KeyError) \<and>
   weighted_score_for (Np (Fin (1 / 2))) (Py (6 / 10)) ''German'' (Inr (Py (127 / 300)))
     \<lparr>w_cost = 4, w_style = 4, w_reliability = 1, w_fuel_economy = 1, w_safety = 1\<rparr> =
     Inr (Np (Fin (1927 / 300)))"
  using unknown_category [of "Np (Fin (1 / 2))" "Py (6 / 10)" "''Martian''" "Py (127 / 300)"
      "\<lparr>w_cost = 4, w_style = 4, w_reliability = 1, w_fuel_economy = 1, w_safety = 1\<rparr>"]
  by (simp add: calculate_weighted_score_def)

text \<open>With an origin outside the four nationalities the results page never returns.\<close>

lemma results_page_unknown_origin:
  "origin_defender inp \<notin> {''Japanese'', ''Korean'', ''American'', ''German''} \<Longrightarrow>
     \<exists>e. results_page data inp = Inl e"
  by (auto simp add: results_page_def bind_err_def Let_def weighted_score_for_def
        dict_lookup_def reliability_scores_def
      split: sum.splits prod.splits option.splits)

text \<open>
  C10. For a nationality that the table of depreciation rates does not have, the rate is
  the default 0.1 and the residual value is the price times \<open>0.9 ^ 5\<close>; no error is
  raised at this step.
\<close>

theorem default_depreciation:
  "depreciation_rates nationality = None \<Longrightarrow>
     dep_rate nationality = 1 / 10 \<and>
     residual_value price (dep_rate nationality) = price * (9 / 10) ^ 5"
  by (simp add: dep_rate_def dict_get_def residual_value_def)

theorem default_depreciation_witness:
  "depreciation_rates ''Martian'' = None \<and> dep_rate ''Martian'' = 1 / 10 \<and>
   residual_value 11000 (dep_rate ''Martian'') = 11000 * (9 / 10) ^ 5"
  using default_depreciation [of "''Martian''" 11000] by (simp add: depreciation_rates_def)

text \<open>
  The example run with the origin Martian: the depreciation rate falls back to the
  default, the page goes on and ends at the reliability lookup.
\<close>

lemma example_run_unknown_origin:
  "results_page example_dataset (example_inputs\<lparr>origin_defender := ''Martian''\<rparr>) =
     Inl (Builtin KeyError)"
  by (simp add: page_simps example_dataset_def example_inputs_def)

subsection \<open>The recommendation\<close>

lemma results_page_recommendation:
  "results_page data inp = Inr r \<Longrightarrow>
     r_recommendation r =
       recommendation (r_challenger_weighted_score r) (r_defender_weighted_score r)"
  by (auto simp add: results_page_def bind_err_def Let_def split: sum.splits prod.splits)

lemma ngt_irrefl: "\<not> ngt s s"
  unfolding ngt_def by (cases "num_value s") simp_all

text \<open>
  C1. The recommendation is to replace the car exactly when the weighted score of the
  challenger is strictly greater than the weighted score of the defender (the \<open>>\<close> of
  doubles; for finite scores \<open>a\<close> and \<open>b\<close>, of either kind, that of the numbers); with
  equal scores it is to keep the car. The results page shows this recommendation for
  the two weighted scores it has computed.
\<close>

theorem recommendation_strict:
  "(recommendation c d = ''Replace the current car with the new one.'') = ngt c d \<and>
   (recommendation c d = ''Keep your car.'') = (\<not> ngt c d) \<and>
   (num_value c = Fin a \<and> num_value d = Fin b \<longrightarrow>
      (recommendation c d = ''Replace the current car with the new one.'') = (b < a) \<and>
      (recommendation c d = ''Keep your car.'') = (a \<le> b)) \<and>
   recommendation s s = ''Keep your car.'' \<and>
   (results_page data inp = Inr r \<longrightarrow>
      (r_recommendation r = ''Replace the current car with the new one.'') =
        ngt (r_challenger_weighted_score r) (r_defender_weighted_score r) \<and>
      (r_recommendation r = ''Keep your car.'') =
        (\<not> ngt (r_challenger_weighted_score r) (r_defender_weighted_score r)))"
proof -
  have rec: "(recommendation x y = ''Replace the current car with the new one.'') = ngt x y"
    "(recommendation x y = ''Keep your car.'') = (\<not> ngt x y)" for x y
    by (auto simp add: recommendation_def)
  have fin: "ngt c d = (b < a)" if "num_value c = Fin a \<and> num_value d = Fin b"
    using that by (simp add: ngt_def)
  show ?thesis
    using rec fin ngt_irrefl [of s] results_page_recommendation [of data inp r] by auto
qed

theorem recommendation_strict_witness:
  "recommendation (Np (Fin 2)) (Py 1) = ''Replace the current car with the new one.'' \<and>
   recommendation (Py 1) (Np (Fin 1)) = ''Keep your car.'' \<and>
   recommendation (Np NaN) (Py 1) = ''Keep your car.'' \<and>
   (\<exists>r. results_page example_dataset example_inputs = Inr r \<and>
        r_recommendation r = ''Keep your car.'' \<and>
        \<not> ngt (r_challenger_weighted_score r) (r_defender_weighted_score r))"
proof -
  have pair: "recommendation (Np (Fin 2)) (Py 1) = ''Replace the current car with the new one.'' \<and>
      recommendation (Py 1) (Np (Fin 1)) = ''Keep your car.'' \<and>
      recommendation (Np NaN) (Py 1) = ''Keep your car.''"
    using recommendation_strict [of "Np (Fin 2)" "Py 1" 2 1]
      recommendation_strict [of "Py 1" "Np (Fin 1)" 1 1]
      recommendation_strict [of "Np NaN" "Py 1"]
    by (simp add: ngt_def)
  have page: "\<exists>r. results_page example_dataset example_inputs = Inr r \<and>
        r_recommendation r = ''Keep your car.'' \<and>
        \<not> ngt (r_challenger_weighted_score r) (r_defender_weighted_score r)"
    using recommendation_strict [THEN conjunct2, THEN conjunct2, THEN conjunct2, THEN conjunct2,
        rule_format, OF example_run]
    unfolding example_run by (simp add: ngt_def)
  from pair page show ?thesis by simp
qed

end
